theory Spec2Isabelle
  imports Main "HOL-Library.Sublist"
begin

section \<open>Trusted-domain classification\<close>

text \<open>
  JavaScript strings are modelled as \<^typ>\<open>string\<close>: a list of code units in the
  Latin-1 range. \<open>String.prototype.toLowerCase\<close> maps \<open>A..Z\<close> and the
  accented capitals \<open>U+00C0..U+00DE\<close> (without the multiplication sign \<open>U+00D7\<close>)
  to the code unit 32 places further on and leaves every other code unit alone.
\<close>

definition toLowerCase_char :: "char \<Rightarrow> char" where
  "toLowerCase_char c =
     (let n = (of_char c :: nat)
      in if (65 \<le> n \<and> n \<le> 90) \<or> (192 \<le> n \<and> n \<le> 222 \<and> n \<noteq> 215)
         then char_of (n + 32) else c)"

definition toLowerCase :: "string \<Rightarrow> string" where
  "toLowerCase s = map toLowerCase_char s"

text \<open>\<open>s.includes(d)\<close>: \<open>d\<close> occurs in \<open>s\<close> as a contiguous run.\<close>

fun str_includes :: "string \<Rightarrow> string \<Rightarrow> bool" where
  "str_includes [] d = (d = [])"
| "str_includes (c # cs) d = (prefix d (c # cs) \<or> str_includes cs d)"

text \<open>\<open>CAPTCHA_DOMAINS\<close> of the iframe interceptor module.\<close>

definition CAPTCHA_DOMAINS :: "string list" where
  "CAPTCHA_DOMAINS =
     [''recaptcha'', ''hcaptcha'', ''turnstile'', ''challenges.cloudflare.com'',
      ''gstatic.com/recaptcha'']"

text \<open>\<open>isCaptchaUrl\<close>: \<open>CAPTCHA_DOMAINS.some(d => url.toLowerCase().includes(d))\<close>.\<close>

definition isCaptchaUrl :: "string \<Rightarrow> bool" where
  "isCaptchaUrl url =
     (let urlLower = toLowerCase url
      in list_ex (\<lambda>domain. str_includes urlLower domain) CAPTCHA_DOMAINS)"

text \<open>
  \<open>CAPTCHA_DOMAINS\<close> of the CAPTCHA handler module, a list of its own, and the test
  \<open>CAPTCHA_DOMAINS.some(d => url.includes(d))\<close> that \<open>enhanceNetworkRequests\<close>
  computes as \<open>isCaptchaRequest\<close> for the patched \<open>fetch\<close> and \<open>XMLHttpRequest.open\<close>.
\<close>

definition HANDLER_CAPTCHA_DOMAINS :: "string list" where
  "HANDLER_CAPTCHA_DOMAINS =
     [''google.com'', ''recaptcha.net'', ''gstatic.com'', ''hcaptcha.com'', ''cloudflare.com'',
      ''challenges.cloudflare.com'', ''yandex.com'', ''yandex.ru'',
      ''smartcaptcha.yandexcloud.net'']"

definition isCaptchaRequest :: "string \<Rightarrow> bool" where
  "isCaptchaRequest url = list_ex (\<lambda>domain. str_includes url domain) HANDLER_CAPTCHA_DOMAINS"

section \<open>JavaScript values, errors and the observable world\<close>

text \<open>
  The interceptor module runs in the embedding page and installs its closures on the
  window of the embedded frame. Every object belongs to the realm that created it, and
  each realm has its own \<open>ArrayBuffer\<close>, \<open>MessagePort\<close>, \<open>DOMException\<close>,
  \<open>HTMLElement\<close> and so on: \<open>x instanceof C\<close>, evaluated in the embedding page, holds
  only for an \<open>x\<close> of class \<open>C\<close> that was created in the embedding page.

  A host object carries its realm, its class and an identity. A plain object is its list
  of own enumerable properties, an array the list of its elements.
\<close>

datatype origin_realm = EmbeddingPage | EmbeddedFrame

datatype host_class =
  ArrayBuffer | MessagePort | ImageBitmap | OffscreenCanvas | ReadableStream
  | WritableStream | TransformStream | OtherHost

datatype js_value =
  JUndefined | JNull | JBool bool | JNum int | JStr string
  | JHost origin_realm host_class nat
  | JArr "js_value list"
  | JObj "(string \<times> js_value) list"

text \<open>
  \<open>DOMException name\<close> is a \<open>DOMException\<close> of the embedding page's realm, the kind
  that \<open>error instanceof DOMException\<close> accepts there. \<open>FrameDOMException name\<close> is a
  \<open>DOMException\<close> created in the embedded frame's realm, which is what the frame's own
  primitives throw. \<open>JsError name\<close> is any other error.
\<close>

datatype js_error = DOMException string | FrameDOMException string | JsError string

datatype log_level = LogInfo | LogWarn | LogError

fun truthy :: "js_value \<Rightarrow> bool" where
  "truthy JUndefined = False"
| "truthy JNull = False"
| "truthy (JBool b) = b"
| "truthy (JNum n) = (n \<noteq> 0)"
| "truthy (JStr s) = (s \<noteq> [])"
| "truthy (JHost rl c i) = True"
| "truthy (JArr xs) = True"
| "truthy (JObj ps) = True"

fun typeof_object :: "js_value \<Rightarrow> bool" where
  "typeof_object JNull = True"
| "typeof_object (JHost rl c i) = True"
| "typeof_object (JArr xs) = True"
| "typeof_object (JObj ps) = True"
| "typeof_object v = False"

fun isArray :: "js_value \<Rightarrow> bool" where
  "isArray (JArr xs) = True"
| "isArray v = False"

text \<open>\<open>v instanceof k\<close>, evaluated in the embedding page.\<close>

fun instanceof :: "js_value \<Rightarrow> host_class \<Rightarrow> bool" where
  "instanceof (JHost rl c i) k = (rl = EmbeddingPage \<and> c = k)"
| "instanceof v k = False"

fun string_of_nat :: "nat \<Rightarrow> string" where
  "string_of_nat n =
     (if n < 10 then [char_of (48 + n)]
      else string_of_nat (n div 10) @ [char_of (48 + n mod 10)])"

text \<open>\<open>{ ...v }\<close>: the own enumerable properties of \<open>v\<close>, copied into a new object.\<close>

fun spread :: "js_value \<Rightarrow> (string \<times> js_value) list" where
  "spread (JObj ps) = ps"
| "spread (JArr xs) = zip (map string_of_nat [0 ..< length xs]) xs"
| "spread (JStr s) = zip (map string_of_nat [0 ..< length s]) (map (\<lambda>c. JStr [c]) s)"
| "spread v = []"

definition get_prop :: "(string \<times> js_value) list \<Rightarrow> string \<Rightarrow> js_value" where
  "get_prop ps k = (case map_of ps k of None \<Rightarrow> JUndefined | Some v \<Rightarrow> v)"

fun set_prop :: "string \<Rightarrow> js_value \<Rightarrow> (string \<times> js_value) list \<Rightarrow> (string \<times> js_value) list" where
  "set_prop k v [] = [(k, v)]"
| "set_prop k v (p # ps) = (if fst p = k then (k, v) # ps else p # set_prop k v ps)"

definition delete_prop :: "string \<Rightarrow> (string \<times> js_value) list \<Rightarrow> (string \<times> js_value) list" where
  "delete_prop k ps = filter (\<lambda>p. fst p \<noteq> k) ps"

text \<open>
  What the code does to its surroundings: the address written to the embedding
  element, every value assigned to it in order, the calls that reached the platform's
  own \<open>open\<close> and \<open>postMessage\<close>, and the console.
\<close>

datatype url_arg = UrlAbsent | UrlString string | UrlObject string

type_synonym open_args = "url_arg \<times> string option \<times> string option"

type_synonym pm_args = "js_value \<times> js_value \<times> js_value"

record world =
  iframe_src :: string
  navigations :: "string list"
  native_open_calls :: "open_args list"
  native_pm_calls :: "pm_args list"
  console :: "(log_level \<times> string) list"

definition log :: "log_level \<Rightarrow> string \<Rightarrow> world \<Rightarrow> world" where
  "log lvl msg w = w\<lparr>console := console w @ [(lvl, msg)]\<rparr>"

text \<open>
  The platform and the collaborators, as parameters: which classes the runtime defines
  (\<open>typeof X !== "undefined"\<close>), whether the platform's \<open>postMessage\<close> throws on given
  arguments, and what the platform's \<open>open\<close> returns.
\<close>

datatype open_result = ResultNull | ResultWindow nat | ResultInertProxy

record env =
  defined_classes :: "host_class \<Rightarrow> bool"
  native_post_throws :: "pm_args \<Rightarrow> js_error option"
  native_open_returns :: "open_args \<Rightarrow> open_result"

section \<open>Transferable sanitizer\<close>

text \<open>
  What the runtime can transfer, in the words of the specification: binary buffers,
  message endpoints, and the bitmap, canvas and stream classes the runtime defines,
  whichever realm made the object.
\<close>

fun legally_transferable :: "env \<Rightarrow> js_value \<Rightarrow> bool" where
  "legally_transferable e (JHost rl c i) =
     (c = ArrayBuffer \<or> c = MessagePort \<or>
      (defined_classes e c \<and>
         (c = ImageBitmap \<or> c = OffscreenCanvas \<or> c = ReadableStream
          \<or> c = WritableStream \<or> c = TransformStream)))"
| "legally_transferable e v = False"

text \<open>\<open>filterValidTransferables\<close>.\<close>

definition isValidTransferable :: "env \<Rightarrow> js_value \<Rightarrow> bool" where
  "isValidTransferable e item =
     (instanceof item ArrayBuffer \<or>
      instanceof item MessagePort \<or>
      (defined_classes e ImageBitmap \<and> instanceof item ImageBitmap) \<or>
      (defined_classes e OffscreenCanvas \<and> instanceof item OffscreenCanvas) \<or>
      (defined_classes e ReadableStream \<and> instanceof item ReadableStream) \<or>
      (defined_classes e WritableStream \<and> instanceof item WritableStream) \<or>
      (defined_classes e TransformStream \<and> instanceof item TransformStream))"

definition filterValidTransferables :: "env \<Rightarrow> js_value list \<Rightarrow> js_value list" where
  "filterValidTransferables e transfer = filter (isValidTransferable e) transfer"

fun array_elems :: "js_value \<Rightarrow> js_value list" where
  "array_elems (JArr xs) = xs"
| "array_elems v = []"

fun origin_or_star :: "js_value \<Rightarrow> string" where
  "origin_or_star (JStr s) = s"
| "origin_or_star v = ''*''"

text \<open>
  The arguments the wrapper installed by \<open>fixPostMessage\<close> hands to the captured
  original in its \<open>try\<close> block: the options signature when the second argument is a
  non-null, non-array object, the \<open>targetOrigin\<close> signature otherwise.
\<close>

definition forwarded_args :: "env \<Rightarrow> pm_args \<Rightarrow> pm_args" where
  "forwarded_args e args =
     (case args of (message, targetOriginOrOptions, transfer) \<Rightarrow>
        if typeof_object targetOriginOrOptions \<and> targetOriginOrOptions \<noteq> JNull
           \<and> \<not> isArray targetOriginOrOptions
        then
          (let options = spread targetOriginOrOptions;
               options' =
                 (if truthy (get_prop options ''transfer'') \<and> isArray (get_prop options ''transfer'')
                  then set_prop ''transfer''
                         (JArr (filterValidTransferables e (array_elems (get_prop options ''transfer''))))
                         options
                  else options)
           in (message, JObj options', JUndefined))
        else
          (let targetOrigin = origin_or_star targetOriginOrOptions;
               validTransfer =
                 (if truthy transfer \<and> isArray transfer
                  then JArr (filterValidTransferables e (array_elems transfer))
                  else JUndefined)
           in (message, JStr targetOrigin, validTransfer)))"

text \<open>The arguments of the retry in the \<open>catch\<close> block: no transfer list.\<close>

definition retry_args :: "pm_args \<Rightarrow> pm_args" where
  "retry_args args =
     (case args of (message, targetOriginOrOptions, transfer) \<Rightarrow>
        if typeof_object targetOriginOrOptions \<and> targetOriginOrOptions \<noteq> JNull
        then (let fallbackOptions = delete_prop ''transfer'' (spread targetOriginOrOptions)
              in (message, JObj fallbackOptions, JUndefined))
        else (let fallbackOrigin = origin_or_star targetOriginOrOptions
              in (message, JStr fallbackOrigin, JUndefined)))"

text \<open>
  A message-send primitive is the platform's own or a wrapper holding the primitive it
  captured. Calling one returns \<open>None\<close> when the call returns and \<open>Some err\<close> when it
  throws \<open>err\<close>.
\<close>

datatype pm_impl = NativePostMessage | PostMessageWrapper pm_impl

fun call_postMessage :: "env \<Rightarrow> pm_impl \<Rightarrow> pm_args \<Rightarrow> world \<Rightarrow> js_error option \<times> world" where
  "call_postMessage e NativePostMessage args w =
     (native_post_throws e args, w\<lparr>native_pm_calls := native_pm_calls w @ [args]\<rparr>)"
| "call_postMessage e (PostMessageWrapper originalPostMessage) args w =
     (case call_postMessage e originalPostMessage (forwarded_args e args) w of
        (None, w1) \<Rightarrow> (None, w1)
      | (Some error, w1) \<Rightarrow>
          if error = DOMException ''DataCloneError''
          then
            (case call_postMessage e originalPostMessage (retry_args args)
                    (log LogWarn ''[Iframe Interceptor] postMessage failed with DataCloneError, retrying without transfer'' w1) of
               (None, w2) \<Rightarrow> (None, w2)
             | (Some retryError, w2) \<Rightarrow>
                 (Some retryError, log LogError ''[Iframe Interceptor] postMessage retry failed:'' w2))
          else (Some error, w1))"



section \<open>The message-send wrapper of the CAPTCHA handler\<close>



fun class_name :: "host_class \<Rightarrow> string" where
  "class_name ArrayBuffer = ''ArrayBuffer''"
| "class_name MessagePort = ''MessagePort''"
| "class_name ImageBitmap = ''ImageBitmap''"
| "class_name OffscreenCanvas = ''OffscreenCanvas''"
| "class_name ReadableStream = ''ReadableStream''"
| "class_name WritableStream = ''WritableStream''"
| "class_name TransformStream = ''TransformStream''"
| "class_name OtherHost = ''Object''"

text \<open>\<open>v?.name\<close> and \<open>item?.constructor?.name\<close>.\<close>

fun name_of :: "js_value \<Rightarrow> js_value" where
  "name_of (JObj ps) = get_prop ps ''name''"
| "name_of v = JUndefined"

fun constructor_name :: "js_value \<Rightarrow> js_value" where
  "constructor_name JUndefined = JUndefined"
| "constructor_name JNull = JUndefined"
| "constructor_name (JBool b) = JStr ''Boolean''"
| "constructor_name (JNum n) = JStr ''Number''"
| "constructor_name (JStr s) = JStr ''String''"
| "constructor_name (JHost rl c i) = JStr (class_name c)"
| "constructor_name (JArr xs) = JStr ''Array''"
| "constructor_name (JObj ps) =
     (case map_of ps ''constructor'' of None \<Rightarrow> JStr ''Object'' | Some c \<Rightarrow> name_of c)"

definition is_port :: "js_value \<Rightarrow> bool" where
  "is_port item = (instanceof item MessagePort \<or> constructor_name item = JStr ''MessagePort'')"

text \<open>\<open>collectPorts\<close>: the ports found in a message, walking its own enumerable properties.\<close>

fun collectPorts :: "js_value \<Rightarrow> js_value list"
  and collectPorts_props :: "(string \<times> js_value) list \<Rightarrow> js_value list"
  and collectPorts_elems :: "js_value list \<Rightarrow> js_value list" where
  "collectPorts JUndefined = []"
| "collectPorts JNull = []"
| "collectPorts (JBool b) = []"
| "collectPorts (JNum n) = []"
| "collectPorts (JStr s) = []"
| "collectPorts (JHost rl c i) = (if is_port (JHost rl c i) then [JHost rl c i] else [])"
| "collectPorts (JArr xs) = (if is_port (JArr xs) then [JArr xs] else collectPorts_elems xs)"
| "collectPorts (JObj ps) = (if is_port (JObj ps) then [JObj ps] else collectPorts_props ps)"
| "collectPorts_props [] = []"
| "collectPorts_props (p # ps) = collectPorts (snd p) @ collectPorts_props ps"
| "collectPorts_elems [] = []"
| "collectPorts_elems (x # xs) = collectPorts x @ collectPorts_elems xs"




section \<open>Document interceptor\<close>

subsection \<open>The override of \<open>open\<close>\<close>

fun url_truthy :: "url_arg \<Rightarrow> bool" where
  "url_truthy UrlAbsent = False"
| "url_truthy (UrlString s) = (s \<noteq> [])"
| "url_truthy (UrlObject h) = True"

fun url_toString :: "url_arg \<Rightarrow> string" where
  "url_toString UrlAbsent = []"
| "url_toString (UrlString s) = s"
| "url_toString (UrlObject h) = h"

text \<open>\<open>r || null\<close> for a result that is a window, the stand-in or \<open>null\<close>.\<close>

fun or_null :: "open_result \<Rightarrow> open_result" where
  "or_null ResultNull = ResultNull"
| "or_null r = r"

text \<open>
  The stand-in returned for an intercepted call is
  \<open>new Proxy({}, { get() { return null }, set() { return true } })\<close>: every read
  yields \<open>null\<close>, every write reports success and stores nothing.
\<close>

definition inert_get :: "string \<Rightarrow> js_value" where
  "inert_get key = JNull"

definition inert_set :: "string \<Rightarrow> js_value \<Rightarrow> bool" where
  "inert_set key v = True"

text \<open>
  Reading and writing a property of what \<open>open\<close> returned. On \<open>null\<close> both throw a
  \<open>TypeError\<close>; on a real window the platform decides (a parameter); on the stand-in
  the traps answer, and a \<open>set\<close> trap that returned \<open>false\<close> would make a strict-mode
  write throw.
\<close>

fun read_property ::
  "(nat \<Rightarrow> string \<Rightarrow> js_error + js_value) \<Rightarrow> open_result \<Rightarrow> string \<Rightarrow> js_error + js_value" where
  "read_property window_read ResultNull key = Inl (JsError ''TypeError'')"
| "read_property window_read (ResultWindow h) key = window_read h key"
| "read_property window_read ResultInertProxy key = Inr (inert_get key)"

fun write_property ::
  "(nat \<Rightarrow> string \<Rightarrow> js_value \<Rightarrow> js_error option) \<Rightarrow> open_result \<Rightarrow> string \<Rightarrow> js_value
     \<Rightarrow> js_error option" where
  "write_property window_write ResultNull key v = Some (JsError ''TypeError'')"
| "write_property window_write (ResultWindow h) key v = window_write h key v"
| "write_property window_write ResultInertProxy key v =
     (if inert_set key v then None else Some (JsError ''TypeError''))"

text \<open>
  An \<open>open\<close> primitive is the platform's own or the override, which holds the
  primitive it captured (\<open>originalOpen\<close>, possibly undefined) and the navigation
  callback.
\<close>

datatype open_impl = NativeOpen | OpenOverride "open_impl option" "string \<Rightarrow> world \<Rightarrow> world"

fun call_open :: "env \<Rightarrow> open_impl \<Rightarrow> open_args \<Rightarrow> world \<Rightarrow> open_result \<times> world" where
  "call_open e NativeOpen args w =
     (native_open_returns e args, w\<lparr>native_open_calls := native_open_calls w @ [args]\<rparr>)"
| "call_open e (OpenOverride originalOpen onNavigate) args w =
     (if \<not> url_truthy (fst args)
      then (ResultNull, log LogWarn ''[Iframe Interceptor] window.open called without URL'' w)
      else if isCaptchaUrl (url_toString (fst args))
      then
        (case originalOpen of
           None \<Rightarrow>
             (ResultNull,
              log LogInfo (''[Iframe Interceptor] Allowing CAPTCHA window.open: '' @ url_toString (fst args)) w)
         | Some f \<Rightarrow>
             (case call_open e f args
                     (log LogInfo (''[Iframe Interceptor] Allowing CAPTCHA window.open: '' @ url_toString (fst args)) w) of
                (r, w1) \<Rightarrow> (or_null r, w1)))
      else
        (ResultInertProxy,
         onNavigate (url_toString (fst args))
           (log LogInfo (''[Iframe Interceptor] Intercepted window.open: '' @ url_toString (fst args)) w)))"

subsection \<open>The embedded realm and installation\<close>

datatype ready_state = Loading | Interactive | Complete

text \<open>
  A realm is the window of the embedded document as the embedding page sees it. When it
  is not same-origin, reading or writing any member but the few the platform exposes
  across origins (\<open>postMessage\<close> may be read, not written) throws a
  \<open>SecurityError\<close>. The listeners and observers the interceptor registers are kept as
  the navigation callbacks they close over.
\<close>

record realm =
  same_origin :: bool
  window_open :: "open_impl option"
  window_postMessage :: "pm_impl option"
  readyState :: ready_state
  doc_body :: bool
  doc_documentElement :: bool
  click_listeners :: "(string \<Rightarrow> world \<Rightarrow> world) list"
  DOMContentLoaded_listeners :: "(string \<Rightarrow> world \<Rightarrow> world) list"
  observers :: nat

definition fixPostMessage :: "realm \<Rightarrow> world \<Rightarrow> realm \<times> world" where
  "fixPostMessage targetWindow w =
     (case window_postMessage targetWindow of
        None \<Rightarrow> (targetWindow, w)
      | Some originalPostMessage \<Rightarrow>
          if \<not> same_origin targetWindow
          then (targetWindow, log LogWarn ''[Iframe Interceptor] Could not fix postMessage:'' w)
          else (targetWindow\<lparr>window_postMessage := Some (PostMessageWrapper originalPostMessage)\<rparr>, w))"

definition interceptTargetBlank ::
  "(string \<Rightarrow> world \<Rightarrow> world) \<Rightarrow> realm \<Rightarrow> world \<Rightarrow> js_error option \<times> realm \<times> world" where
  "interceptTargetBlank onNavigate iframeWindow w =
     (if \<not> same_origin iframeWindow then (Some (DOMException ''SecurityError''), iframeWindow, w)
      else
        (let r1 = iframeWindow\<lparr>click_listeners := click_listeners iframeWindow @ [onNavigate]\<rparr>
         in if doc_body r1 \<or> doc_documentElement r1
            then (None, r1\<lparr>observers := observers r1 + 1\<rparr>, w)
            else (None, r1, log LogWarn ''[Iframe Interceptor] No valid target for MutationObserver'' w)))"

text \<open>The \<open>try\<close> block of \<open>injectIframeInterceptor\<close>, with the state it has reached.\<close>

definition inject_try ::
  "(string \<Rightarrow> world \<Rightarrow> world) \<Rightarrow> realm \<Rightarrow> world \<Rightarrow> js_error option \<times> realm \<times> world" where
  "inject_try onNavigate iframeWindow w =
     (case fixPostMessage iframeWindow w of (r1, w1) \<Rightarrow>
        if \<not> same_origin r1 then (Some (DOMException ''SecurityError''), r1, w1)
        else
          (let r2 = r1\<lparr>window_open := Some (OpenOverride (window_open r1) onNavigate)\<rparr>
           in case (if readyState r2 = Loading
                    then (None, r2\<lparr>DOMContentLoaded_listeners := DOMContentLoaded_listeners r2 @ [onNavigate]\<rparr>, w1)
                    else interceptTargetBlank onNavigate r2 w1) of
                (None, r3, w3) \<Rightarrow>
                  (None, r3, log LogInfo ''[Iframe Interceptor] Successfully injected interceptor'' w3)
              | (Some err, r3, w3) \<Rightarrow> (Some err, r3, w3)))"

definition injectIframeInterceptor ::
  "realm option \<Rightarrow> (string \<Rightarrow> world \<Rightarrow> world) \<Rightarrow> world \<Rightarrow> realm option \<times> world" where
  "injectIframeInterceptor iframeWindow onNavigate w =
     (case iframeWindow of
        None \<Rightarrow> (None, log LogWarn ''Cannot inject interceptor: iframe window is null'' w)
      | Some r \<Rightarrow>
          (case inject_try onNavigate r w of
             (None, r', w') \<Rightarrow> (Some r', w')
           | (Some error, r', w') \<Rightarrow>
               (Some r', log LogWarn ''[Iframe Interceptor] Could not inject (likely cross-origin):'' w')))"

subsection \<open>Frame attachment\<close>

text \<open>
  The embedding element: its content window and its \<open>load\<close> listeners, each kept as
  the encoder it closes over. The navigation callback of \<open>handleIframeLoad\<close> is
  \<open>iframe.src = encodeURL(url)\<close>.
\<close>

record iframe =
  contentWindow :: "realm option"
  load_listeners :: "(string \<Rightarrow> string) list"

definition navigate_iframe :: "(string \<Rightarrow> string) \<Rightarrow> string \<Rightarrow> world \<Rightarrow> world" where
  "navigate_iframe encodeURL url w =
     w\<lparr>iframe_src := encodeURL url, navigations := navigations w @ [encodeURL url]\<rparr>"

definition handleIframeLoad :: "(string \<Rightarrow> string) \<Rightarrow> iframe \<Rightarrow> world \<Rightarrow> iframe \<times> world" where
  "handleIframeLoad encodeURL fr w =
     (case contentWindow fr of
        None \<Rightarrow> (fr, log LogWarn ''Iframe contentWindow is null'' w)
      | Some iframeWindow \<Rightarrow>
          (case injectIframeInterceptor (Some iframeWindow) (navigate_iframe encodeURL) w of
             (cw, w') \<Rightarrow> (fr\<lparr>contentWindow := cw\<rparr>, w')))"

text \<open>
  \<open>setupIframeInterceptor\<close>. The test
  \<open>iframe.contentWindow && iframe.contentWindow.document.readyState === "complete"\<close>
  reads \<open>document\<close> of the content window outside any \<open>try\<close>.
\<close>

definition setupIframeInterceptor ::
  "iframe \<Rightarrow> (string \<Rightarrow> string) \<Rightarrow> world \<Rightarrow> js_error + (iframe \<times> world)" where
  "setupIframeInterceptor fr encodeURL w =
     (let fr1 = fr\<lparr>load_listeners := load_listeners fr @ [encodeURL]\<rparr>
      in case contentWindow fr1 of
           None \<Rightarrow> Inr (fr1, w)
         | Some cw \<Rightarrow>
             if \<not> same_origin cw then Inl (DOMException ''SecurityError'')
             else if readyState cw = Complete then Inr (handleIframeLoad encodeURL fr1 w)
             else Inr (fr1, w))"


subsection \<open>Link interception\<close>

text \<open>
  A click is handled on the chain of elements from the event's target up through its
  \<open>parentElement\<close>s (the empty chain is a null target). \<open>href\<close> is the resolved
  absolute address the \<open>href\<close> property of an anchor reports, empty when the anchor
  has none.
\<close>

record element =
  tagName :: string
  attributes :: "(string \<times> string) list"
  href :: string

record click_event =
  defaultPrevented :: bool
  propagationStopped :: bool

definition getAttribute :: "(string \<times> string) list \<Rightarrow> string \<Rightarrow> string option" where
  "getAttribute as name = map_of as name"

definition removeAttribute :: "string \<Rightarrow> (string \<times> string) list \<Rightarrow> (string \<times> string) list" where
  "removeAttribute name as = filter (\<lambda>a. fst a \<noteq> name) as"

text \<open>\<open>while (target && target.tagName !== "A") target = target.parentElement\<close>.\<close>

fun closest_anchor :: "element list \<Rightarrow> element option" where
  "closest_anchor [] = None"
| "closest_anchor (target # parents) =
     (if tagName target \<noteq> ''A'' then closest_anchor parents else Some target)"

definition click_listener ::
  "(string \<Rightarrow> world \<Rightarrow> world) \<Rightarrow> element list \<Rightarrow> click_event \<Rightarrow> world \<Rightarrow> click_event \<times> world" where
  "click_listener onNavigate chain event w =
     (case closest_anchor chain of
        None \<Rightarrow> (event, w)
      | Some anchor \<Rightarrow>
          (let targetAttr = getAttribute (attributes anchor) ''target''
           in if targetAttr = Some ''_blank'' \<or> targetAttr = Some ''_new''
              then
                (event\<lparr>defaultPrevented := True, propagationStopped := True\<rparr>,
                 if href anchor \<noteq> []
                 then onNavigate (href anchor)
                        (log LogInfo
                           (''[Iframe Interceptor] Intercepted target='' @ [CHR 0x22] @ ''_blank''
                              @ [CHR 0x22] @ '' link: '' @ href anchor) w)
                 else w)
              else (event, w)))"

text \<open>
  A click reaches every capture listener registered on the document, in order of
  registration; \<open>stopPropagation\<close> does not keep it from the later ones on the same node.
\<close>

fun dispatch_click ::
  "(string \<Rightarrow> world \<Rightarrow> world) list \<Rightarrow> element list \<Rightarrow> click_event \<Rightarrow> world \<Rightarrow> click_event \<times> world" where
  "dispatch_click [] chain event w = (event, w)"
| "dispatch_click (l # ls) chain event w =
     (case click_listener l chain event w of (event', w') \<Rightarrow> dispatch_click ls chain event' w')"

subsection \<open>Dynamic content\<close>

text \<open>
  A node of an added subtree: its \<open>nodeType\<close>, the realm that created it, its
  interface there (an HTML anchor, another HTML element, or anything else, such as an
  SVG element or a text node), its local name, its attributes and its children. The
  nodes of the embedded document are those its parser and its scripts create, in the
  frame's realm; a node of the embedding page's realm gets there only by adoption.
\<close>

datatype node_interface = AnchorElement | OtherHTMLElement | OtherNode

datatype node =
  Node nat origin_realm node_interface string "(string \<times> string) list" "node list"

fun nodeType :: "node \<Rightarrow> nat" where
  "nodeType (Node ty rl itf name as cs) = ty"

fun node_realm :: "node \<Rightarrow> origin_realm" where
  "node_realm (Node ty rl itf name as cs) = rl"

fun node_interface_of :: "node \<Rightarrow> node_interface" where
  "node_interface_of (Node ty rl itf name as cs) = itf"

fun localName :: "node \<Rightarrow> string" where
  "localName (Node ty rl itf name as cs) = name"

fun node_attributes :: "node \<Rightarrow> (string \<times> string) list" where
  "node_attributes (Node ty rl itf name as cs) = as"

fun childNodes :: "node \<Rightarrow> node list" where
  "childNodes (Node ty rl itf name as cs) = cs"

text \<open>
  \<open>node instanceof HTMLAnchorElement\<close> and \<open>node instanceof HTMLElement\<close>, evaluated
  in the embedding page, where the observer's callback runs.
\<close>

definition instanceof_HTMLAnchorElement :: "node \<Rightarrow> bool" where
  "instanceof_HTMLAnchorElement n =
     (node_realm n = EmbeddingPage \<and> node_interface_of n = AnchorElement)"

definition instanceof_HTMLElement :: "node \<Rightarrow> bool" where
  "instanceof_HTMLElement n =
     (node_realm n = EmbeddingPage
      \<and> (node_interface_of n = AnchorElement \<or> node_interface_of n = OtherHTMLElement))"

definition is_marker :: "string option \<Rightarrow> bool" where
  "is_marker targetAttr = (targetAttr = Some ''_blank'' \<or> targetAttr = Some ''_new'')"

text \<open>
  The selector \<open>a[target="_blank"], a[target="_new"]\<close> selects elements by local name
  and by the value of \<open>target\<close>. In an HTML document the value of \<open>target\<close> on an
  HTML element is compared without regard to ASCII case; on any other element it is
  compared as written.
\<close>

definition ascii_lower_char :: "char \<Rightarrow> char" where
  "ascii_lower_char c =
     (let n = (of_char c :: nat) in if 65 \<le> n \<and> n \<le> 90 then char_of (n + 32) else c)"

definition selector_value_matches :: "node_interface \<Rightarrow> string \<Rightarrow> bool" where
  "selector_value_matches itf v =
     (if itf = OtherNode then v = ''_blank'' \<or> v = ''_new''
      else map ascii_lower_char v = ''_blank'' \<or> map ascii_lower_char v = ''_new'')"

definition selector_matches :: "node \<Rightarrow> bool" where
  "selector_matches n =
     (nodeType n = 1 \<and> localName n = ''a''
      \<and> (case getAttribute (node_attributes n) ''target'' of
            None \<Rightarrow> False
          | Some v \<Rightarrow> selector_value_matches (node_interface_of n) v))"

text \<open>
  \<open>node.querySelectorAll(...).forEach(anchor => anchor.removeAttribute("target"))\<close>,
  as it leaves one descendant and the subtree below it.
\<close>

fun strip_selected :: "node \<Rightarrow> node" where
  "strip_selected (Node ty rl itf name as cs) =
     Node ty rl itf name
       (if selector_matches (Node ty rl itf name as cs) then removeAttribute ''target'' as else as)
       (map strip_selected cs)"

text \<open>The body of the observer's callback for one added node.\<close>

fun process_added_node :: "node \<Rightarrow> node" where
  "process_added_node (Node ty rl itf name as cs) =
     (if ty \<noteq> 1 then Node ty rl itf name as cs
      else if instanceof_HTMLAnchorElement (Node ty rl itf name as cs)
      then (if is_marker (getAttribute as ''target'')
            then Node ty rl itf name (removeAttribute ''target'' as) cs
            else Node ty rl itf name as cs)
      else if instanceof_HTMLElement (Node ty rl itf name as cs)
      then Node ty rl itf name as (map strip_selected cs)
      else Node ty rl itf name as cs)"

text \<open>
  The callback on a batch of mutation records, each given by its \<open>addedNodes\<close>. It
  touches the added nodes only; the world is passed through.
\<close>

definition observer_callback :: "node list list \<Rightarrow> world \<Rightarrow> node list list \<times> world" where
  "observer_callback mutations w = (map (map process_added_node) mutations, w)"

text \<open>
  The nodes below a node, in document order, and the HTML anchors that carry a
  new-context marker, whichever realm made them.
\<close>

fun descendants :: "node \<Rightarrow> node list" where
  "descendants (Node ty rl itf name as cs) = concat (map (\<lambda>c. c # descendants c) cs)"

definition marked_anchor :: "node \<Rightarrow> bool" where
  "marked_anchor n =
     (nodeType n = 1 \<and> node_interface_of n = AnchorElement \<and> localName n = ''a''
      \<and> is_marker (getAttribute (node_attributes n) ''target''))"

section \<open>Service worker\<close>

text \<open>
  The \<open>fetch\<close> listener of the service worker. The two proxy engines and the
  platform's \<open>fetch\<close> are parameters; each returns a response or throws. The platform's
  \<open>fetch\<close> is told whether it is called from the \<open>catch\<close> block.
\<close>

record response =
  status :: nat
  statusText :: string
  headers :: "(string \<times> string) list"
  body :: string

record service =
  loadConfig_throws :: "js_error option"
  location_origin :: string
  uv_prefix :: string
  uv_fetch :: "string \<Rightarrow> js_error + response"
  sj_route :: "string \<Rightarrow> js_error + bool"
  sj_fetch :: "string \<Rightarrow> js_error + response"
  platform_fetch :: "bool \<Rightarrow> string \<Rightarrow> js_error + response"

definition fetch_try :: "service \<Rightarrow> string \<Rightarrow> js_error + response" where
  "fetch_try sv url =
     (case loadConfig_throws sv of
        Some err \<Rightarrow> Inl err
      | None \<Rightarrow>
          if prefix (location_origin sv @ uv_prefix sv) url then uv_fetch sv url
          else
            (case sj_route sv url of
               Inl err \<Rightarrow> Inl err
             | Inr routed \<Rightarrow> if routed then sj_fetch sv url else platform_fetch sv False url))"

definition fetch_listener :: "service \<Rightarrow> string \<Rightarrow> response" where
  "fetch_listener sv url =
     (case fetch_try sv url of
        Inr r \<Rightarrow> r
      | Inl error \<Rightarrow>
          (case platform_fetch sv True url of
             Inr r \<Rightarrow> r
           | Inl retryError \<Rightarrow>
               \<lparr>status = 500, statusText = ''Internal Server Error'',
                headers = [(''content-type'', ''text/plain;charset=UTF-8'')],
                body = ''Proxy request failed''\<rparr>))"

subsection \<open>Repeated installation\<close>

text \<open>Two installations on one realm, the second on what the first has left.\<close>

definition install_twice ::
  "realm \<Rightarrow> (string \<Rightarrow> world \<Rightarrow> world) \<Rightarrow> (string \<Rightarrow> world \<Rightarrow> world) \<Rightarrow> world \<Rightarrow> realm option \<times> world" where
  "install_twice r onNavigate1 onNavigate2 w =
     (case injectIframeInterceptor (Some r) onNavigate1 w of
        (r1, w1) \<Rightarrow> injectIframeInterceptor r1 onNavigate2 w1)"

text \<open>The click listeners of a content window, none when there is no window.\<close>

definition click_listeners_of :: "realm option \<Rightarrow> (string \<Rightarrow> world \<Rightarrow> world) list" where
  "click_listeners_of cw = (case cw of None \<Rightarrow> [] | Some r \<Rightarrow> click_listeners r)"

text \<open>How many wrappers stand between a caller and the platform's primitive.\<close>

fun open_wrappers :: "open_impl \<Rightarrow> nat" where
  "open_wrappers NativeOpen = 0"
| "open_wrappers (OpenOverride None onNavigate) = 1"
| "open_wrappers (OpenOverride (Some f) onNavigate) = Suc (open_wrappers f)"

fun pm_wrappers :: "pm_impl \<Rightarrow> nat" where
  "pm_wrappers NativePostMessage = 0"
| "pm_wrappers (PostMessageWrapper f) = Suc (pm_wrappers f)"

section \<open>Example inputs\<close>

text \<open>
  A platform whose own \<open>postMessage\<close> never throws and whose \<open>open\<close> returns a window;
  one whose \<open>postMessage\<close> always throws a data-clone violation of the embedding
  page's realm; and a frame whose \<open>postMessage\<close> rejects the target origin, throwing
  in the frame's realm.
\<close>

definition quiet_platform :: env where
  "quiet_platform =
     \<lparr>defined_classes = (\<lambda>c. True),
      native_post_throws = (\<lambda>args. None),
      native_open_returns = (\<lambda>args. ResultWindow 1)\<rparr>"

definition uncloneable_platform :: env where
  "uncloneable_platform =
     \<lparr>defined_classes = (\<lambda>c. True),
      native_post_throws = (\<lambda>args. Some (DOMException ''DataCloneError'')),
      native_open_returns = (\<lambda>args. ResultWindow 1)\<rparr>"


definition initial_world :: world where
  "initial_world =
     \<lparr>iframe_src = ''/proxy/start'', navigations = [], native_open_calls = [],
      native_pm_calls = [], console = []\<rparr>"

definition proxy_encode :: "string \<Rightarrow> string" where
  "proxy_encode url = ''/proxy/'' @ url"

definition loaded_realm :: realm where
  "loaded_realm =
     \<lparr>same_origin = True, window_open = Some NativeOpen,
      window_postMessage = Some NativePostMessage, readyState = Complete,
      doc_body = True, doc_documentElement = True, click_listeners = [],
      DOMContentLoaded_listeners = [], observers = 0\<rparr>"

definition cross_origin_realm :: realm where
  "cross_origin_realm = loaded_realm\<lparr>same_origin := False\<rparr>"

definition cross_origin_frame :: iframe where
  "cross_origin_frame = \<lparr>contentWindow = Some cross_origin_realm, load_listeners = []\<rparr>"

definition same_origin_frame :: iframe where
  "same_origin_frame = \<lparr>contentWindow = Some loaded_realm, load_listeners = []\<rparr>"

definition html_response :: response where
  "html_response =
     \<lparr>status = 200, statusText = ''OK'',
      headers = [(''content-type'', ''text/html''), (''content-length'', ''41'')],
      body = ''<html><head></head><body>hi</body></html>''\<rparr>"

definition html_service :: service where
  "html_service =
     \<lparr>loadConfig_throws = None, location_origin = ''https://radius.test'', uv_prefix = ''/vu/go/'',
      uv_fetch = (\<lambda>url. Inr html_response), sj_route = (\<lambda>url. Inr False),
      sj_fetch = (\<lambda>url. Inl (JsError ''TypeError'')),
      platform_fetch = (\<lambda>retry url. Inl (JsError ''TypeError''))\<rparr>"

definition blank_anchor :: element where
  "blank_anchor =
     \<lparr>tagName = ''A'',
      attributes = [(''target'', ''_blank''), (''href'', ''https://x.test/p'')],
      href = ''https://x.test/p''\<rparr>"

definition span_element :: element where
  "span_element = \<lparr>tagName = ''SPAN'', attributes = [], href = []\<rparr>"

definition body_element :: element where
  "body_element = \<lparr>tagName = ''BODY'', attributes = [], href = []\<rparr>"

definition hrefless_anchor :: element where
  "hrefless_anchor = \<lparr>tagName = ''A'', attributes = [(''target'', ''_blank'')], href = []\<rparr>"

definition fresh_click :: click_event where
  "fresh_click = \<lparr>defaultPrevented = False, propagationStopped = False\<rparr>"

definition marked_link :: node where
  "marked_link =
     Node 1 EmbeddedFrame AnchorElement ''a''
       [(''href'', ''https://x.test/p''), (''target'', ''_blank'')] []"

definition div_with_link :: node where
  "div_with_link =
     Node 1 EmbeddedFrame OtherHTMLElement ''div'' []
       [Node 1 EmbeddedFrame OtherHTMLElement ''p'' [] [marked_link]]"

definition frame_buffer :: js_value where
  "frame_buffer = JHost EmbeddedFrame ArrayBuffer 1"

definition plain_object :: js_value where
  "plain_object = JObj []"

text \<open>A real window whose properties are all undefined and accept every write.\<close>

definition plain_window_read :: "nat \<Rightarrow> string \<Rightarrow> js_error + js_value" where
  "plain_window_read h key = Inr JUndefined"

definition plain_window_write :: "nat \<Rightarrow> string \<Rightarrow> js_value \<Rightarrow> js_error option" where
  "plain_window_write h key v = None"

section \<open>Properties of the trusted-domain classification\<close>

lemma str_includes_iff: "str_includes s d \<longleftrightarrow> (\<exists>pre post. s = pre @ d @ post)"
proof (induction s)
  case Nil
  then show ?case by auto
next
  case (Cons c cs)
  show ?case
  proof
    assume "str_includes (c # cs) d"
    then consider "prefix d (c # cs)" | "str_includes cs d" by auto
    then show "\<exists>pre post. c # cs = pre @ d @ post"
    proof cases
      case 1
      then obtain post where "c # cs = d @ post" by (auto simp: prefix_def)
      then have "c # cs = [] @ d @ post" by simp
      then show ?thesis by blast
    next
      case 2
      with Cons obtain pre post where "cs = pre @ d @ post" by blast
      then have "c # cs = (c # pre) @ d @ post" by simp
      then show ?thesis by blast
    qed
  next
    assume "\<exists>pre post. c # cs = pre @ d @ post"
    then obtain pre post where eq: "c # cs = pre @ d @ post" by blast
    show "str_includes (c # cs) d"
    proof (cases pre)
      case Nil
      with eq have "prefix d (c # cs)" by (simp add: prefix_def)
      then show ?thesis by simp
    next
      case (Cons p ps)
      with eq have "cs = ps @ d @ post" by simp
      with Cons.IH have "str_includes cs d" by blast
      then show ?thesis by simp
    qed
  qed
qed

lemma CAPTCHA_DOMAINS_lower: "map toLowerCase CAPTCHA_DOMAINS = CAPTCHA_DOMAINS"
  by code_simp

lemma CAPTCHA_DOMAINS_lower_elem:
  assumes "d \<in> set CAPTCHA_DOMAINS" shows "toLowerCase d = d"
proof -
  from assms obtain i where i: "i < length CAPTCHA_DOMAINS" "CAPTCHA_DOMAINS ! i = d"
    by (auto simp: in_set_conv_nth)
  then have "map toLowerCase CAPTCHA_DOMAINS ! i = toLowerCase d" by simp
  with i show ?thesis by (simp add: CAPTCHA_DOMAINS_lower)
qed

lemma lowered_includes_iff:
  "str_includes (toLowerCase url) d \<longleftrightarrow>
     (\<exists>pre mid post. url = pre @ mid @ post \<and> toLowerCase mid = d)"
proof
  assume "str_includes (toLowerCase url) d"
  then obtain p q where "map toLowerCase_char url = p @ d @ q"
    by (auto simp: str_includes_iff toLowerCase_def)
  then have "\<exists>us vs. url = us @ vs \<and> p = map toLowerCase_char us \<and> d @ q = map toLowerCase_char vs"
    by (simp add: map_eq_append_conv)
  then obtain pre rest where u: "url = pre @ rest" and r: "d @ q = map toLowerCase_char rest"
    by blast
  from r have "\<exists>us vs. rest = us @ vs \<and> d = map toLowerCase_char us \<and> q = map toLowerCase_char vs"
    by (simp add: append_eq_map_conv)
  then obtain mid post where "rest = mid @ post" and "map toLowerCase_char mid = d"
    by auto
  with u show "\<exists>pre mid post. url = pre @ mid @ post \<and> toLowerCase mid = d"
    by (auto simp: toLowerCase_def)
next
  assume "\<exists>pre mid post. url = pre @ mid @ post \<and> toLowerCase mid = d"
  then obtain pre mid post where "url = pre @ mid @ post" and "toLowerCase mid = d" by blast
  then have "toLowerCase url = toLowerCase pre @ d @ toLowerCase post"
    by (simp add: toLowerCase_def)
  then show "str_includes (toLowerCase url) d"
    unfolding str_includes_iff by blast
qed

text \<open>
  C8 (as amended). \<open>isCaptchaUrl\<close> is a total function of its argument alone. It
  holds exactly when the address contains, without regard to case, an entry of the
  interceptor's allowlist; this is the test the override of \<open>open\<close> branches on. The
  patched network requests are gated by another test: the address contains, letter for
  letter, an entry of the CAPTCHA handler's own allowlist.
\<close>

theorem classifier_case_insensitive_gate_case_sensitive:
  "(isCaptchaUrl url \<longleftrightarrow>
      (\<exists>domain \<in> set CAPTCHA_DOMAINS. \<exists>pre mid post.
          url = pre @ mid @ post \<and> toLowerCase mid = toLowerCase domain))
   \<and> (isCaptchaRequest url \<longleftrightarrow>
      (\<exists>domain \<in> set HANDLER_CAPTCHA_DOMAINS. \<exists>pre post. url = pre @ domain @ post))"
proof
  have "isCaptchaUrl url \<longleftrightarrow>
      (\<exists>domain \<in> set CAPTCHA_DOMAINS. \<exists>pre mid post. url = pre @ mid @ post \<and> toLowerCase mid = domain)"
    by (simp add: isCaptchaUrl_def list_ex_iff lowered_includes_iff)
  then show "isCaptchaUrl url \<longleftrightarrow>
      (\<exists>domain \<in> set CAPTCHA_DOMAINS. \<exists>pre mid post.
          url = pre @ mid @ post \<and> toLowerCase mid = toLowerCase domain)"
    by (simp add: CAPTCHA_DOMAINS_lower_elem)
next
  show "isCaptchaRequest url \<longleftrightarrow>
      (\<exists>domain \<in> set HANDLER_CAPTCHA_DOMAINS. \<exists>pre post. url = pre @ domain @ post)"
    by (simp add: isCaptchaRequest_def list_ex_iff str_includes_iff)
qed

text \<open>Both tests at an address they accept.\<close>

theorem classifier_witness:
  "isCaptchaUrl ''//reCaptcha.net'' \<and> isCaptchaRequest ''//recaptcha.net''"
proof -
  have split1: "''//reCaptcha.net'' = ''//'' @ ''reCaptcha'' @ ''.net''" by simp
  have low: "toLowerCase ''reCaptcha'' = toLowerCase ''recaptcha''" by code_simp
  have mem1: "''recaptcha'' \<in> set CAPTCHA_DOMAINS" by (simp add: CAPTCHA_DOMAINS_def)
  have split2: "''//recaptcha.net'' = ''//'' @ ''recaptcha.net'' @ []" by simp
  have mem2: "''recaptcha.net'' \<in> set HANDLER_CAPTCHA_DOMAINS"
    by (simp add: HANDLER_CAPTCHA_DOMAINS_def)
  from split1 low mem1 have "isCaptchaUrl ''//reCaptcha.net''"
    using classifier_case_insensitive_gate_case_sensitive [of "''//reCaptcha.net''"] by blast
  moreover from split2 mem2 have "isCaptchaRequest ''//recaptcha.net''"
    using classifier_case_insensitive_gate_case_sensitive [of "''//recaptcha.net''"] by blast
  ultimately show ?thesis by simp
qed

text \<open>
  C8 as stated fails: an address in capitals that the classifier of the interceptor
  accepts is not accepted by the gate of the patched network requests.
\<close>

theorem network_gate_same_classification_counterexample:
  "isCaptchaUrl ''https://HCAPTCHA.COM/'' \<and> \<not> isCaptchaRequest ''https://HCAPTCHA.COM/''"
  by code_simp

section \<open>Properties of the message-send wrappers\<close>


lemma get_prop_set_prop_same: "get_prop (set_prop k v ps) k = v"
  by (induction ps) (auto simp: get_prop_def)

lemma get_prop_set_prop_other: "k' \<noteq> k \<Longrightarrow> get_prop (set_prop k v ps) k' = get_prop ps k'"
  by (induction ps) (auto simp: get_prop_def)



lemma wrapper_on_native:
  "call_postMessage e (PostMessageWrapper NativePostMessage) args w =
     (case native_post_throws e (forwarded_args e args) of
        None \<Rightarrow> (None, w\<lparr>native_pm_calls := native_pm_calls w @ [forwarded_args e args]\<rparr>)
      | Some error \<Rightarrow>
          if error = DOMException ''DataCloneError''
          then (case native_post_throws e (retry_args args) of
                  None \<Rightarrow>
                    (None,
                     (log LogWarn ''[Iframe Interceptor] postMessage failed with DataCloneError, retrying without transfer''
                        (w\<lparr>native_pm_calls := native_pm_calls w @ [forwarded_args e args]\<rparr>))
                     \<lparr>native_pm_calls := native_pm_calls w @ [forwarded_args e args, retry_args args]\<rparr>)
                | Some retryError \<Rightarrow>
                    (Some retryError,
                     log LogError ''[Iframe Interceptor] postMessage retry failed:''
                       ((log LogWarn ''[Iframe Interceptor] postMessage failed with DataCloneError, retrying without transfer''
                          (w\<lparr>native_pm_calls := native_pm_calls w @ [forwarded_args e args]\<rparr>))
                        \<lparr>native_pm_calls := native_pm_calls w @ [forwarded_args e args, retry_args args]\<rparr>)))
          else (Some error, w\<lparr>native_pm_calls := native_pm_calls w @ [forwarded_args e args]\<rparr>))"
  by (simp add: log_def split: option.splits)


lemma interceptor_wrapper_other_error:
  assumes "native_post_throws e (forwarded_args e args) = Some err"
    and "err \<noteq> DOMException ''DataCloneError''"
  shows "native_pm_calls (snd (call_postMessage e (PostMessageWrapper NativePostMessage) args w))
           = native_pm_calls w @ [forwarded_args e args]"
    and "fst (call_postMessage e (PostMessageWrapper NativePostMessage) args w) = Some err"
  using assms by (auto simp: wrapper_on_native)

text \<open>
  A data-clone violation thrown by the frame's own primitive is a \<open>DOMException\<close> of
  the frame's realm: the wrapper does not recognise it and hands it to the caller
  without a retry.
\<close>

lemma frame_clone_violation_not_retried:
  assumes "native_post_throws e (forwarded_args e args) = Some (FrameDOMException ''DataCloneError'')"
  shows "native_pm_calls (snd (call_postMessage e (PostMessageWrapper NativePostMessage) args w))
           = native_pm_calls w @ [forwarded_args e args]"
    and "fst (call_postMessage e (PostMessageWrapper NativePostMessage) args w)
           = Some (FrameDOMException ''DataCloneError'')"
  using interceptor_wrapper_other_error [OF assms] by simp_all





text \<open>
  The filter keeps exactly the legally transferable objects of the embedding page's
  realm, and under both signatures the first call that reaches the platform's primitive
  carries the filtered list.
\<close>

lemma isValidTransferable_page_realm:
  "isValidTransferable e item \<longleftrightarrow>
     (\<exists>c i. item = JHost EmbeddingPage c i) \<and> legally_transferable e item"
  by (cases item) (auto simp: isValidTransferable_def)

lemma first_native_call:
  "take (Suc (length (native_pm_calls w)))
     (native_pm_calls (snd (call_postMessage e (PostMessageWrapper NativePostMessage) args w)))
   = native_pm_calls w @ [forwarded_args e args]"
  by (simp add: wrapper_on_native log_def split: option.splits)

lemma forwarded_args_origin:
  "forwarded_args e (message, JStr origin, JArr xs)
     = (message, JStr origin, JArr (filter (isValidTransferable e) xs))"
  by (simp add: forwarded_args_def filterValidTransferables_def)

lemma forwarded_args_options:
  "get_prop options ''transfer'' = JArr xs \<Longrightarrow>
   forwarded_args e (message, JObj options, transfer)
     = (message, JObj (set_prop ''transfer'' (JArr (filter (isValidTransferable e) xs)) options),
        JUndefined)"
  by (simp add: forwarded_args_def filterValidTransferables_def)

lemma frame_objects_filtered_out:
  "filter (isValidTransferable e) (map (\<lambda>p. JHost EmbeddedFrame (fst p) (snd p)) hs) = []"
  by (induction hs) (auto simp: isValidTransferable_def)

text \<open>
  C10. A script of the embedded frame sends a message with a transfer list that holds a
  binary buffer it created and a plain object. The buffer is legally transferable, the
  plain object is not; the wrapper forwards neither, under either signature, because its
  \<open>instanceof ArrayBuffer\<close> is the embedding page's.
\<close>

theorem frame_buffer_dropped_from_transfer_list:
  "legally_transferable quiet_platform frame_buffer
   \<and> \<not> legally_transferable quiet_platform plain_object
   \<and> take 1 (native_pm_calls (snd (call_postMessage quiet_platform (PostMessageWrapper NativePostMessage)
         (JStr ''m'', JStr ''*'', JArr [frame_buffer, plain_object]) initial_world)))
     = [(JStr ''m'', JStr ''*'', JArr [])]
   \<and> take 1 (native_pm_calls (snd (call_postMessage quiet_platform (PostMessageWrapper NativePostMessage)
         (JStr ''m'',
          JObj [(''targetOrigin'', JStr ''*''), (''transfer'', JArr [frame_buffer, plain_object])],
          JUndefined) initial_world)))
     = [(JStr ''m'', JObj [(''targetOrigin'', JStr ''*''), (''transfer'', JArr [])], JUndefined)]"
  by (simp add: frame_buffer_def plain_object_def quiet_platform_def initial_world_def
        forwarded_args_def filterValidTransferables_def isValidTransferable_def get_prop_def)

section \<open>Properties of the override of \<open>open\<close>\<close>

lemma isCaptchaUrl_empty: "\<not> isCaptchaUrl []"
  by code_simp

lemma trusted_url_truthy: "isCaptchaUrl (url_toString url) \<Longrightarrow> url_truthy url"
  by (cases url) (auto simp: isCaptchaUrl_empty)

lemma or_null_id: "or_null r = r"
  by (cases r) auto

text \<open>
  C5. A call of the override with an address (a non-empty string or a \<open>URL\<close> object;
  the code takes anything else as a call without address) that the classifier does not
  accept rewrites the address of the embedding element exactly once, to the encoded
  address, and does not call the platform's \<open>open\<close>. What it returns is the inert
  stand-in: reading any property of the returned value yields \<open>null\<close>, and writing any
  property of it completes without an error.
\<close>

theorem open_override_redirects_untrusted_url_once:
  assumes "url_truthy url" and "\<not> isCaptchaUrl (url_toString url)"
  shows "fst (call_open e (OpenOverride originalOpen (navigate_iframe encodeURL)) (url, target, features) w)
           = ResultInertProxy
         \<and> read_property window_read
              (fst (call_open e (OpenOverride originalOpen (navigate_iframe encodeURL))
                 (url, target, features) w)) key = Inr JNull
         \<and> write_property window_write
              (fst (call_open e (OpenOverride originalOpen (navigate_iframe encodeURL))
                 (url, target, features) w)) key v = None
         \<and> iframe_src (snd (call_open e (OpenOverride originalOpen (navigate_iframe encodeURL))
               (url, target, features) w)) = encodeURL (url_toString url)
         \<and> navigations (snd (call_open e (OpenOverride originalOpen (navigate_iframe encodeURL))
               (url, target, features) w)) = navigations w @ [encodeURL (url_toString url)]
         \<and> native_open_calls (snd (call_open e (OpenOverride originalOpen (navigate_iframe encodeURL))
               (url, target, features) w)) = native_open_calls w"
  using assms by (simp add: navigate_iframe_def log_def inert_get_def inert_set_def)

lemma example_untrusted: "\<not> isCaptchaUrl ''https://x.test/p''"
  by code_simp

text \<open>A call with the address \<open>https://x.test/p\<close>.\<close>

theorem open_override_untrusted_witness:
  "url_truthy (UrlString ''https://x.test/p'') \<and> \<not> isCaptchaUrl (url_toString (UrlString ''https://x.test/p''))
   \<and> fst (call_open quiet_platform (OpenOverride (Some NativeOpen) (navigate_iframe proxy_encode))
        (UrlString ''https://x.test/p'', Some ''_blank'', None) initial_world) = ResultInertProxy
   \<and> read_property plain_window_read
        (fst (call_open quiet_platform (OpenOverride (Some NativeOpen) (navigate_iframe proxy_encode))
           (UrlString ''https://x.test/p'', Some ''_blank'', None) initial_world)) ''document'' = Inr JNull
   \<and> write_property plain_window_write
        (fst (call_open quiet_platform (OpenOverride (Some NativeOpen) (navigate_iframe proxy_encode))
           (UrlString ''https://x.test/p'', Some ''_blank'', None) initial_world)) ''document'' (JStr ''popup'') = None
   \<and> navigations (snd (call_open quiet_platform (OpenOverride (Some NativeOpen) (navigate_iframe proxy_encode))
        (UrlString ''https://x.test/p'', Some ''_blank'', None) initial_world)) = [''/proxy/https://x.test/p'']
   \<and> native_open_calls (snd (call_open quiet_platform (OpenOverride (Some NativeOpen) (navigate_iframe proxy_encode))
        (UrlString ''https://x.test/p'', Some ''_blank'', None) initial_world)) = []"
proof -
  have t: "url_truthy (UrlString ''https://x.test/p'')" by simp
  have u: "\<not> isCaptchaUrl (url_toString (UrlString ''https://x.test/p''))"
    by (simp add: example_untrusted)
  have n: "navigations initial_world = []" "native_open_calls initial_world = []"
    by (simp_all add: initial_world_def)
  have p: "proxy_encode (url_toString (UrlString ''https://x.test/p'')) = ''/proxy/https://x.test/p''"
    by (simp add: proxy_encode_def)
  note T = open_override_redirects_untrusted_url_once
        [where e = quiet_platform and originalOpen = "Some NativeOpen"
           and encodeURL = proxy_encode and target = "Some ''_blank''" and features = None
           and w = initial_world and key = "''document''" and v = "JStr ''popup''"
           and window_read = plain_window_read and window_write = plain_window_write, OF t u]
  from T [unfolded n p append_Nil] t u show ?thesis
    by blast
qed

text \<open>
  A call without an address, absent or the empty string, returns \<open>null\<close> after a
  warning and redirects nothing.
\<close>

lemma open_override_without_url:
  assumes "\<not> url_truthy url"
  shows "call_open e (OpenOverride originalOpen onNavigate) (url, target, features) w
           = (ResultNull, log LogWarn ''[Iframe Interceptor] window.open called without URL'' w)"
  using assms by simp

text \<open>
  C6. A call of the override with an address the classifier accepts does what the
  captured primitive does on the same three arguments, after one console line. When the
  captured primitive is the platform's own, it is called once with these arguments, its
  result is returned, and the address of the embedding element and the list of
  redirects stay as they were, whatever the navigation callback is.
\<close>

theorem open_override_forwards_trusted_url:
  assumes "isCaptchaUrl (url_toString url)"
  shows "call_open e (OpenOverride (Some originalOpen) onNavigate) (url, target, features) w
           = call_open e originalOpen (url, target, features)
               (log LogInfo (''[Iframe Interceptor] Allowing CAPTCHA window.open: '' @ url_toString url) w)
         \<and> call_open e (OpenOverride (Some NativeOpen) onNavigate) (url, target, features) w
           = (native_open_returns e (url, target, features),
              (log LogInfo (''[Iframe Interceptor] Allowing CAPTCHA window.open: '' @ url_toString url) w)
                \<lparr>native_open_calls := native_open_calls w @ [(url, target, features)]\<rparr>)
         \<and> navigations (snd (call_open e (OpenOverride (Some NativeOpen) onNavigate) (url, target, features) w))
           = navigations w
         \<and> iframe_src (snd (call_open e (OpenOverride (Some NativeOpen) onNavigate) (url, target, features) w))
           = iframe_src w"
  using assms trusted_url_truthy [OF assms]
  by (simp add: or_null_id log_def split: prod.splits)

lemma example_trusted: "isCaptchaUrl ''https://www.google.com/recaptcha/api2/anchor''"
  by code_simp

text \<open>A call with a reCAPTCHA address.\<close>

theorem open_override_trusted_witness:
  "isCaptchaUrl (url_toString (UrlString ''https://www.google.com/recaptcha/api2/anchor''))
   \<and> fst (call_open quiet_platform (OpenOverride (Some NativeOpen) (navigate_iframe proxy_encode))
          (UrlString ''https://www.google.com/recaptcha/api2/anchor'', Some ''_blank'', Some ''popup'') initial_world)
       = ResultWindow 1
   \<and> native_open_calls (snd (call_open quiet_platform (OpenOverride (Some NativeOpen) (navigate_iframe proxy_encode))
          (UrlString ''https://www.google.com/recaptcha/api2/anchor'', Some ''_blank'', Some ''popup'') initial_world))
       = [(UrlString ''https://www.google.com/recaptcha/api2/anchor'', Some ''_blank'', Some ''popup'')]
   \<and> navigations (snd (call_open quiet_platform (OpenOverride (Some NativeOpen) (navigate_iframe proxy_encode))
          (UrlString ''https://www.google.com/recaptcha/api2/anchor'', Some ''_blank'', Some ''popup'') initial_world))
       = []"
proof -
  have t: "isCaptchaUrl (url_toString (UrlString ''https://www.google.com/recaptcha/api2/anchor''))"
    by (simp add: example_trusted)
  show ?thesis
    using t open_override_forwards_trusted_url
            [where e = quiet_platform and originalOpen = NativeOpen
               and onNavigate = "navigate_iframe proxy_encode" and target = "Some ''_blank''"
               and features = "Some ''popup''" and w = initial_world, OF t]
    by (simp add: initial_world_def quiet_platform_def log_def)
qed

section \<open>Properties of installation\<close>

lemma inject_same_origin:
  assumes "same_origin r" and "window_postMessage r = Some g"
  shows "\<exists>r' w'. injectIframeInterceptor (Some r) nav w = (Some r', w')
           \<and> same_origin r'
           \<and> window_open r' = Some (OpenOverride (window_open r) nav)
           \<and> window_postMessage r' = Some (PostMessageWrapper g)
           \<and> navigations w' = navigations w \<and> native_open_calls w' = native_open_calls w
           \<and> native_pm_calls w' = native_pm_calls w \<and> iframe_src w' = iframe_src w"
  using assms
  by (auto simp: injectIframeInterceptor_def inject_try_def fixPostMessage_def
        interceptTargetBlank_def log_def Let_def split: prod.splits option.splits if_splits)

lemma inject_catches_realm_access_violation:
  assumes "\<not> same_origin r"
  shows "fst (injectIframeInterceptor (Some r) nav w) = Some r"
  using assms
  by (auto simp: injectIframeInterceptor_def inject_try_def fixPostMessage_def
        split: prod.splits option.splits)

text \<open>
  C3. Inside \<open>injectIframeInterceptor\<close> a realm-access violation is caught and the
  realm is left as it was (lemma above). At bind time, however, \<open>setupIframeInterceptor\<close>
  reads \<open>iframe.contentWindow.document\<close> before it calls the installation: on a
  cross-origin frame the \<open>SecurityError\<close> reaches the caller.
\<close>

theorem setup_cross_origin_frame_throws:
  "setupIframeInterceptor cross_origin_frame proxy_encode initial_world
     = Inl (DOMException ''SecurityError'')"
  by (simp add: setupIframeInterceptor_def cross_origin_frame_def cross_origin_realm_def
        loaded_realm_def)


lemma install_twice_same_origin:
  assumes "same_origin r" and "window_postMessage r = Some g"
  shows "\<exists>r2 w2. install_twice r nav1 nav2 w = (Some r2, w2)
           \<and> window_open r2 = Some (OpenOverride (Some (OpenOverride (window_open r) nav1)) nav2)
           \<and> window_postMessage r2 = Some (PostMessageWrapper (PostMessageWrapper g))"
proof -
  from inject_same_origin [OF assms, of nav1 w] obtain r1 w1 where
    one: "injectIframeInterceptor (Some r) nav1 w = (Some r1, w1)" "same_origin r1"
      "window_open r1 = Some (OpenOverride (window_open r) nav1)"
      "window_postMessage r1 = Some (PostMessageWrapper g)"
    by blast
  from inject_same_origin [OF one(2) one(4), of nav2 w1] obtain r2 w2 where
    two: "injectIframeInterceptor (Some r1) nav2 w1 = (Some r2, w2)"
      "window_open r2 = Some (OpenOverride (window_open r1) nav2)"
      "window_postMessage r2 = Some (PostMessageWrapper (PostMessageWrapper g))"
    by blast
  from one two show ?thesis by (simp add: install_twice_def)
qed

lemma nested_override_trusted:
  assumes "isCaptchaUrl (url_toString url)"
  shows "native_open_calls (snd (call_open e
            (OpenOverride (Some (OpenOverride (Some NativeOpen) nav1)) nav2) (url, target, features) w))
         = native_open_calls w @ [(url, target, features)]"
  using assms trusted_url_truthy [OF assms] by (simp add: or_null_id log_def)

lemma nested_wrapper_quiet:
  assumes "native_post_throws e (forwarded_args e (forwarded_args e args)) = None"
  shows "native_pm_calls (snd (call_postMessage e
            (PostMessageWrapper (PostMessageWrapper NativePostMessage)) args w))
         = native_pm_calls w @ [forwarded_args e (forwarded_args e args)]"
  using assms by simp

text \<open>
  C2 (as amended). Installation is not idempotent: each installation on an accessible
  realm wraps the \<open>open\<close> and message-send primitives it finds, so two installations
  leave two nested wrappers of each. Through the two wrappers, a call of \<open>open\<close> with a
  trusted address and a message send on which the platform's primitive does not throw
  still reach the platform's primitive exactly once.
\<close>

theorem second_installation_nests_wrappers:
  assumes "same_origin r" and "window_open r = Some NativeOpen"
    and "window_postMessage r = Some NativePostMessage"
  shows "\<exists>r2 w2. install_twice r nav1 nav2 w = (Some r2, w2)
           \<and> window_open r2 = Some (OpenOverride (Some (OpenOverride (Some NativeOpen) nav1)) nav2)
           \<and> window_postMessage r2 = Some (PostMessageWrapper (PostMessageWrapper NativePostMessage))
           \<and> (isCaptchaUrl (url_toString url) \<longrightarrow>
                native_open_calls (snd (call_open e
                    (OpenOverride (Some (OpenOverride (Some NativeOpen) nav1)) nav2)
                    (url, target, features) w0))
                  = native_open_calls w0 @ [(url, target, features)])
           \<and> (native_post_throws e (forwarded_args e (forwarded_args e args)) = None \<longrightarrow>
                native_pm_calls (snd (call_postMessage e
                    (PostMessageWrapper (PostMessageWrapper NativePostMessage)) args w0))
                  = native_pm_calls w0 @ [forwarded_args e (forwarded_args e args)])"
proof -
  from install_twice_same_origin [OF assms(1) assms(3), of nav1 nav2 w] assms(2)
  obtain r2 w2 where r2: "install_twice r nav1 nav2 w = (Some r2, w2)"
    "window_open r2 = Some (OpenOverride (Some (OpenOverride (Some NativeOpen) nav1)) nav2)"
    "window_postMessage r2 = Some (PostMessageWrapper (PostMessageWrapper NativePostMessage))"
    by auto
  have A: "isCaptchaUrl (url_toString url) \<longrightarrow>
                native_open_calls (snd (call_open e
                    (OpenOverride (Some (OpenOverride (Some NativeOpen) nav1)) nav2)
                    (url, target, features) w0))
                  = native_open_calls w0 @ [(url, target, features)]"
    using nested_override_trusted [of url e nav1 nav2 target features w0] by blast
  have B: "native_post_throws e (forwarded_args e (forwarded_args e args)) = None \<longrightarrow>
                native_pm_calls (snd (call_postMessage e
                    (PostMessageWrapper (PostMessageWrapper NativePostMessage)) args w0))
                  = native_pm_calls w0 @ [forwarded_args e (forwarded_args e args)]"
    using nested_wrapper_quiet [of e args w0] by blast
  from r2 A B show ?thesis
    by (intro exI [of _ r2] exI [of _ w2]) (simp del: call_open.simps call_postMessage.simps)
qed

text \<open>Two installations on a loaded same-origin realm.\<close>

theorem second_installation_witness:
  "same_origin loaded_realm \<and> window_open loaded_realm = Some NativeOpen
   \<and> window_postMessage loaded_realm = Some NativePostMessage
   \<and> isCaptchaUrl (url_toString (UrlString ''https://www.google.com/recaptcha/api2/anchor''))
   \<and> native_post_throws quiet_platform
        (forwarded_args quiet_platform (forwarded_args quiet_platform (JStr ''m'', JStr ''*'', JUndefined))) = None
   \<and> (\<exists>r2 w2. install_twice loaded_realm (navigate_iframe proxy_encode) (navigate_iframe proxy_encode)
           initial_world = (Some r2, w2)
         \<and> window_postMessage r2 = Some (PostMessageWrapper (PostMessageWrapper NativePostMessage)))
   \<and> native_open_calls (snd (call_open quiet_platform
          (OpenOverride (Some (OpenOverride (Some NativeOpen) (navigate_iframe proxy_encode)))
             (navigate_iframe proxy_encode))
          (UrlString ''https://www.google.com/recaptcha/api2/anchor'', None, None) initial_world))
       = [(UrlString ''https://www.google.com/recaptcha/api2/anchor'', None, None)]
   \<and> native_pm_calls (snd (call_postMessage quiet_platform
          (PostMessageWrapper (PostMessageWrapper NativePostMessage))
          (JStr ''m'', JStr ''*'', JUndefined) initial_world))
       = [(JStr ''m'', JStr ''*'', JUndefined)]"
proof -
  have a: "same_origin loaded_realm" "window_open loaded_realm = Some NativeOpen"
    "window_postMessage loaded_realm = Some NativePostMessage"
    by (simp_all add: loaded_realm_def)
  have t: "isCaptchaUrl (url_toString (UrlString ''https://www.google.com/recaptcha/api2/anchor''))"
    by (simp add: example_trusted)
  have f: "forwarded_args quiet_platform (JStr ''m'', JStr ''*'', JUndefined) = (JStr ''m'', JStr ''*'', JUndefined)"
    by (simp add: forwarded_args_def)
  have q: "native_post_throws quiet_platform
        (forwarded_args quiet_platform (forwarded_args quiet_platform (JStr ''m'', JStr ''*'', JUndefined))) = None"
    by (simp add: quiet_platform_def)
  have n: "native_open_calls initial_world = []" "native_pm_calls initial_world = []"
    by (simp_all add: initial_world_def)
  from second_installation_nests_wrappers
         [OF a, where ?nav1.0 = "navigate_iframe proxy_encode" and ?nav2.0 = "navigate_iframe proxy_encode"
            and w = initial_world and ?w0.0 = initial_world and e = quiet_platform
            and url = "UrlString ''https://www.google.com/recaptcha/api2/anchor''"
            and target = None and features = None and args = "(JStr ''m'', JStr ''*'', JUndefined)"]
  show ?thesis
    using a t q unfolding f n by (auto simp del: call_open.simps call_postMessage.simps)
qed

text \<open>
  C2 as stated fails: after two installations the realm has two wrappers around each
  primitive, a message that cannot be cloned reaches the platform's primitive four
  times, and one click on a marked anchor redirects twice.
\<close>

theorem second_installation_counterexample:
  "Option.bind (fst (install_twice loaded_realm (navigate_iframe proxy_encode) (navigate_iframe proxy_encode)
        initial_world)) window_postMessage
     = Some (PostMessageWrapper (PostMessageWrapper NativePostMessage))
   \<and> map_option open_wrappers
        (Option.bind (fst (install_twice loaded_realm (navigate_iframe proxy_encode) (navigate_iframe proxy_encode)
           initial_world)) window_open)
     = Some 2
   \<and> native_pm_calls (snd (call_postMessage uncloneable_platform
          (PostMessageWrapper (PostMessageWrapper NativePostMessage))
          (JStr ''m'', JStr ''*'', JUndefined) initial_world))
     = [(JStr ''m'', JStr ''*'', JUndefined), (JStr ''m'', JStr ''*'', JUndefined),
        (JStr ''m'', JStr ''*'', JUndefined), (JStr ''m'', JStr ''*'', JUndefined)]
   \<and> navigations (snd (dispatch_click
          (click_listeners_of (fst (install_twice loaded_realm (navigate_iframe proxy_encode)
             (navigate_iframe proxy_encode) initial_world)))
          [blank_anchor] fresh_click initial_world))
     = [''/proxy/https://x.test/p'', ''/proxy/https://x.test/p'']"
  by (simp add: install_twice_def click_listeners_of_def injectIframeInterceptor_def inject_try_def
        fixPostMessage_def interceptTargetBlank_def loaded_realm_def initial_world_def log_def Let_def
        uncloneable_platform_def forwarded_args_def retry_args_def
        click_listener_def blank_anchor_def fresh_click_def getAttribute_def
        navigate_iframe_def proxy_encode_def)

section \<open>Properties of link interception\<close>

lemma closest_anchor_nearest:
  assumes "\<forall>el \<in> set inner. tagName el \<noteq> ''A''" and "tagName anchor = ''A''"
  shows "closest_anchor (inner @ anchor # outer) = Some anchor"
  using assms by (induction inner) auto

lemma inject_registers_click_listener:
  assumes "same_origin r" and "readyState r \<noteq> Loading"
  shows "click_listeners_of (fst (injectIframeInterceptor (Some r) nav w)) = click_listeners r @ [nav]"
  using assms
  by (auto simp: click_listeners_of_def injectIframeInterceptor_def inject_try_def fixPostMessage_def
        interceptTargetBlank_def log_def Let_def split: prod.splits option.splits if_splits)

lemma click_listener_marked:
  assumes "\<forall>el \<in> set inner. tagName el \<noteq> ''A''" and "tagName anchor = ''A''"
    and "getAttribute (attributes anchor) ''target'' = Some ''_blank''
         \<or> getAttribute (attributes anchor) ''target'' = Some ''_new''"
  shows "click_listener nav (inner @ anchor # outer) event w =
           (event\<lparr>defaultPrevented := True, propagationStopped := True\<rparr>,
            if href anchor \<noteq> []
            then nav (href anchor)
                   (log LogInfo
                      (''[Iframe Interceptor] Intercepted target='' @ [CHR 0x22] @ ''_blank''
                         @ [CHR 0x22] @ '' link: '' @ href anchor) w)
            else w)"
  using assms(3) by (auto simp: click_listener_def closest_anchor_nearest [OF assms(1,2)])

lemma navigate_iframe_sel:
  "navigations (navigate_iframe enc u w) = navigations w @ [enc u]"
  "iframe_src (navigate_iframe enc u w) = enc u"
  by (simp_all add: navigate_iframe_def)

lemma log_sel:
  "navigations (log lvl msg w) = navigations w"
  "iframe_src (log lvl msg w) = iframe_src w"
  by (simp_all add: log_def)

lemma dispatch_click_marked:
  assumes "\<forall>el \<in> set inner. tagName el \<noteq> ''A''" and "tagName anchor = ''A''"
    and "getAttribute (attributes anchor) ''target'' = Some ''_blank''
         \<or> getAttribute (attributes anchor) ''target'' = Some ''_new''"
  shows "fst (dispatch_click (map navigate_iframe encs) (inner @ anchor # outer) event w)
           = (if encs = [] then event
              else event\<lparr>defaultPrevented := True, propagationStopped := True\<rparr>)
         \<and> navigations (snd (dispatch_click (map navigate_iframe encs) (inner @ anchor # outer) event w))
           = navigations w @ (if href anchor = [] then [] else map (\<lambda>enc. enc (href anchor)) encs)
         \<and> iframe_src (snd (dispatch_click (map navigate_iframe encs) (inner @ anchor # outer) event w))
           = (if encs = [] \<or> href anchor = [] then iframe_src w else last encs (href anchor))"
proof (induction encs arbitrary: event w)
  case Nil
  show ?case by simp
next
  case (Cons enc encs)
  let ?event1 = "event\<lparr>defaultPrevented := True, propagationStopped := True\<rparr>"
  let ?w1 = "if href anchor \<noteq> []
             then navigate_iframe enc (href anchor)
                    (log LogInfo
                       (''[Iframe Interceptor] Intercepted target='' @ [CHR 0x22] @ ''_blank''
                          @ [CHR 0x22] @ '' link: '' @ href anchor) w)
             else w"
  have step: "dispatch_click (map navigate_iframe (enc # encs)) (inner @ anchor # outer) event w
                = dispatch_click (map navigate_iframe encs) (inner @ anchor # outer) ?event1 ?w1"
    by (simp add: click_listener_marked [OF assms])
  note IH = Cons.IH [of ?event1 ?w1]
  show ?case
    unfolding step using IH by (simp add: navigate_iframe_sel log_sel)
qed

text \<open>
  C4 (as amended). An installation on a same-origin realm whose document is no longer
  loading registers one capture-phase click listener on the document. For a click whose
  nearest enclosing anchor (the target itself or the first element with tag name \<open>A\<close>
  on its chain of parent elements) carries the marker \<open>_blank\<close> or \<open>_new\<close>, every
  registered listener suppresses the default action and the propagation, and, when the
  resolved address of the anchor is not empty, rewrites the address of the embedding
  element once, to its encoder's value for that address. So the click results in one
  redirect per registered listener, exactly one when one listener is registered, and in
  none when the address of the anchor is empty.
\<close>

theorem click_redirects_once_per_registered_listener:
  assumes "\<forall>el \<in> set inner. tagName el \<noteq> ''A''" and "tagName anchor = ''A''"
    and "getAttribute (attributes anchor) ''target'' = Some ''_blank''
         \<or> getAttribute (attributes anchor) ''target'' = Some ''_new''"
  shows "(same_origin r \<and> readyState r \<noteq> Loading \<longrightarrow>
            click_listeners_of (fst (injectIframeInterceptor (Some r) (navigate_iframe encodeURL) w0))
              = click_listeners r @ [navigate_iframe encodeURL])
         \<and> navigations (snd (dispatch_click (map navigate_iframe encs) (inner @ anchor # outer) event w))
           = navigations w @ (if href anchor = [] then [] else map (\<lambda>enc. enc (href anchor)) encs)
         \<and> (encs \<noteq> [] \<longrightarrow>
              defaultPrevented (fst (dispatch_click (map navigate_iframe encs) (inner @ anchor # outer) event w))
              \<and> propagationStopped (fst (dispatch_click (map navigate_iframe encs) (inner @ anchor # outer) event w)))
         \<and> (encs \<noteq> [] \<and> href anchor \<noteq> [] \<longrightarrow>
              iframe_src (snd (dispatch_click (map navigate_iframe encs) (inner @ anchor # outer) event w))
                = last encs (href anchor))"
proof (intro conjI impI)
  assume "same_origin r \<and> readyState r \<noteq> Loading"
  then show "click_listeners_of (fst (injectIframeInterceptor (Some r) (navigate_iframe encodeURL) w0))
              = click_listeners r @ [navigate_iframe encodeURL]"
    by (simp add: inject_registers_click_listener)
next
  show "navigations (snd (dispatch_click (map navigate_iframe encs) (inner @ anchor # outer) event w))
           = navigations w @ (if href anchor = [] then [] else map (\<lambda>enc. enc (href anchor)) encs)"
    using dispatch_click_marked [OF assms] by blast
next
  assume "encs \<noteq> []"
  then have "fst (dispatch_click (map navigate_iframe encs) (inner @ anchor # outer) event w)
           = event\<lparr>defaultPrevented := True, propagationStopped := True\<rparr>"
    using dispatch_click_marked [OF assms, of encs outer event w] by simp
  then show "defaultPrevented (fst (dispatch_click (map navigate_iframe encs) (inner @ anchor # outer) event w))"
    and "propagationStopped (fst (dispatch_click (map navigate_iframe encs) (inner @ anchor # outer) event w))"
    by simp_all
next
  assume "encs \<noteq> [] \<and> href anchor \<noteq> []"
  then show "iframe_src (snd (dispatch_click (map navigate_iframe encs) (inner @ anchor # outer) event w))
                = last encs (href anchor)"
    using dispatch_click_marked [OF assms, of encs outer event w] by simp
qed

text \<open>
  One installation on a loaded realm, then a click on a \<open>span\<close> inside
  \<open><a target="_blank" href="https://x.test/p">\<close>.
\<close>

theorem click_redirects_once_witness:
  "tagName span_element \<noteq> ''A'' \<and> tagName blank_anchor = ''A''
   \<and> getAttribute (attributes blank_anchor) ''target'' = Some ''_blank''
   \<and> href blank_anchor \<noteq> []
   \<and> same_origin loaded_realm \<and> readyState loaded_realm \<noteq> Loading
   \<and> click_listeners_of (fst (injectIframeInterceptor (Some loaded_realm) (navigate_iframe proxy_encode)
          initial_world))
       = map navigate_iframe [proxy_encode]
   \<and> navigations (snd (dispatch_click (map navigate_iframe [proxy_encode])
          [span_element, blank_anchor, body_element] fresh_click initial_world))
       = [''/proxy/https://x.test/p'']
   \<and> defaultPrevented (fst (dispatch_click (map navigate_iframe [proxy_encode])
          [span_element, blank_anchor, body_element] fresh_click initial_world))
   \<and> iframe_src (snd (dispatch_click (map navigate_iframe [proxy_encode])
          [span_element, blank_anchor, body_element] fresh_click initial_world))
       = ''/proxy/https://x.test/p''"
proof -
  have a: "same_origin loaded_realm \<and> readyState loaded_realm \<noteq> Loading"
    by (simp add: loaded_realm_def)
  have l: "click_listeners loaded_realm = []" by (simp add: loaded_realm_def)
  have b: "\<forall>el \<in> set [span_element]. tagName el \<noteq> ''A''" and b': "tagName span_element \<noteq> ''A''"
    and c: "tagName blank_anchor = ''A''"
    by (simp_all add: span_element_def blank_anchor_def)
  have d: "getAttribute (attributes blank_anchor) ''target'' = Some ''_blank''"
    by (simp add: blank_anchor_def getAttribute_def)
  then have d': "getAttribute (attributes blank_anchor) ''target'' = Some ''_blank''
         \<or> getAttribute (attributes blank_anchor) ''target'' = Some ''_new''" by simp
  have h: "href blank_anchor = ''https://x.test/p''" by (simp add: blank_anchor_def)
  have n: "navigations initial_world = []" by (simp add: initial_world_def)
  have p: "proxy_encode ''https://x.test/p'' = ''/proxy/https://x.test/p''"
    by (simp add: proxy_encode_def)
  note T = click_redirects_once_per_registered_listener
         [OF b c d', where r = loaded_realm and encodeURL = proxy_encode and ?w0.0 = initial_world
            and encs = "[proxy_encode]" and outer = "[body_element]" and event = fresh_click
            and w = initial_world]
  from T a have 1: "click_listeners_of (fst (injectIframeInterceptor (Some loaded_realm)
          (navigate_iframe proxy_encode) initial_world)) = map navigate_iframe [proxy_encode]"
    by (simp add: l del: dispatch_click.simps)
  from T have 2: "navigations (snd (dispatch_click (map navigate_iframe [proxy_encode])
          [span_element, blank_anchor, body_element] fresh_click initial_world))
       = [''/proxy/https://x.test/p'']"
    by (simp add: h n p del: dispatch_click.simps)
  from T have 3: "defaultPrevented (fst (dispatch_click (map navigate_iframe [proxy_encode])
          [span_element, blank_anchor, body_element] fresh_click initial_world))"
    by (simp del: dispatch_click.simps)
  from T have 4: "iframe_src (snd (dispatch_click (map navigate_iframe [proxy_encode])
          [span_element, blank_anchor, body_element] fresh_click initial_world))
       = ''/proxy/https://x.test/p''"
    by (simp add: h p del: dispatch_click.simps)
  from a b' c d h 1 2 3 4 show ?thesis by simp
qed

text \<open>
  C4 as stated fails: a click inside a marked anchor without an address is suppressed
  and redirects nothing.
\<close>

theorem click_on_hrefless_anchor_counterexample:
  "getAttribute (attributes hrefless_anchor) ''target'' = Some ''_blank''
   \<and> click_listener (navigate_iframe proxy_encode) [span_element, hrefless_anchor, body_element]
        fresh_click initial_world
     = (\<lparr>defaultPrevented = True, propagationStopped = True\<rparr>, initial_world)
   \<and> navigations initial_world = []"
  by (simp add: click_listener_def hrefless_anchor_def span_element_def fresh_click_def
        getAttribute_def initial_world_def)

section \<open>Properties of the mutation observer\<close>

lemma getAttribute_removeAttribute_same: "getAttribute (removeAttribute name as) name = None"
proof -
  have "map_of (filter (\<lambda>a. fst a \<noteq> name) as) name = None"
    by (induction as) auto
  then show ?thesis by (simp add: getAttribute_def removeAttribute_def)
qed

text \<open>
  A node of the embedding page's realm (one adopted into the embedded document) passes
  the callback's tests: a marked anchor of that realm loses its marker.
\<close>

lemma page_realm_anchor_stripped:
  assumes "nodeType n = 1" and "instanceof_HTMLAnchorElement n"
    and "is_marker (getAttribute (node_attributes n) ''target'')"
  shows "getAttribute (node_attributes (process_added_node n)) ''target'' = None"
  using assms by (cases n) (simp add: getAttribute_removeAttribute_same)

text \<open>
  A node created in the embedded frame fails both \<open>instanceof\<close> tests, so the callback
  leaves it and everything below it as it is.
\<close>

lemma frame_node_untouched:
  assumes "node_realm n = EmbeddedFrame"
  shows "process_added_node n = n"
  using assms
  by (cases n) (simp add: instanceof_HTMLAnchorElement_def instanceof_HTMLElement_def)

text \<open>
  C7. After an installation has started the observer, the embedded document adds a
  marked anchor of its own and a \<open>div\<close> of its own that holds one. The callback leaves
  both batches as they are: the anchors keep \<open>target="_blank"\<close>, because the callback's
  \<open>instanceof HTMLAnchorElement\<close> and \<open>instanceof HTMLElement\<close> are the embedding
  page's.
\<close>

theorem observer_leaves_frame_created_anchor_marked:
  "marked_anchor marked_link \<and> nodeType marked_link = 1 \<and> node_realm marked_link = EmbeddedFrame
   \<and> nodeType div_with_link = 1 \<and> list_ex marked_anchor (descendants div_with_link)
   \<and> map_option observers
        (fst (injectIframeInterceptor (Some loaded_realm) (navigate_iframe proxy_encode) initial_world))
       = Some 1
   \<and> observer_callback [[marked_link], [div_with_link]] initial_world
       = ([[marked_link], [div_with_link]], initial_world)
   \<and> getAttribute (node_attributes (process_added_node marked_link)) ''target'' = Some ''_blank''"
  by (simp add: marked_anchor_def marked_link_def div_with_link_def is_marker_def getAttribute_def
        observer_callback_def instanceof_HTMLAnchorElement_def instanceof_HTMLElement_def
        injectIframeInterceptor_def inject_try_def fixPostMessage_def interceptTargetBlank_def
        loaded_realm_def log_def Let_def)

section \<open>Properties of the service worker\<close>

lemma fetch_listener_passes_through:
  "fetch_try sv url = Inr r \<Longrightarrow> fetch_listener sv url = r"
  by (simp add: fetch_listener_def)

text \<open>
  C1. The \<open>fetch\<close> listener returns what the proxy engine returned. For an HTML
  response with a \<open>head\<close> tag that is the same body and the same content length: no
  script is spliced in.
\<close>

theorem fetch_listener_returns_html_unchanged:
  "fetch_listener html_service ''https://radius.test/vu/go/page'' = html_response
   \<and> body (fetch_listener html_service ''https://radius.test/vu/go/page'')
       = ''<html><head></head><body>hi</body></html>''
   \<and> map_of (headers (fetch_listener html_service ''https://radius.test/vu/go/page'')) ''content-length''
       = Some ''41''"
  by (simp add: fetch_listener_def fetch_try_def html_service_def html_response_def)

end
